theory Spec2Isabelle
  imports Complex_Main "HOL-Library.AList" "HOL-Library.Char_ord" "HOL-Library.List_Lexorder"
begin

section \<open>Python values, exceptions and strings\<close>

text \<open>
  The program is Python. Strings are modelled as lists of 8-bit characters; the case
  conversions \<open>str.lower\<close> and \<open>str.upper\<close> act on the ASCII letters, and the
  regular-expression class \<open>\d\<close> is the ten ASCII digits. Floating-point numbers are
  idealised as rationals, with a separate value for NaN (the mean of an empty column).
  An exception is a value of type \<open>exn\<close>; a function that may raise returns
  \<open>exn + 'a\<close>, with \<open>Inl\<close> for the exception.
\<close>

datatype exn =
    ValueError string
  | KeyError string
  | IndexError string
  | TypeError string
  | OverflowError string
  | RaisedError string

text \<open>\<open>str(e)\<close>: the message; a \<open>KeyError\<close> shows the repr of its key.\<close>

fun exn_str :: "exn \<Rightarrow> string" where
  "exn_str (ValueError m) = m"
| "exn_str (KeyError k) = [CHR 0x27] @ k @ [CHR 0x27]"
| "exn_str (IndexError m) = m"
| "exn_str (TypeError m) = m"
| "exn_str (OverflowError m) = m"
| "exn_str (RaisedError m) = m"

definition is_digit :: "char \<Rightarrow> bool" where
  "is_digit c = (c \<in> set ''0123456789'')"

definition digit_val :: "char \<Rightarrow> int" where
  "digit_val c = int (of_char c) - 48"

definition lower_char :: "char \<Rightarrow> char" where
  "lower_char c =
     (let n = (of_char c :: nat) in if 65 \<le> n \<and> n \<le> 90 then char_of (n + 32) else c)"

definition upper_char :: "char \<Rightarrow> char" where
  "upper_char c =
     (let n = (of_char c :: nat) in if 97 \<le> n \<and> n \<le> 122 then char_of (n - 32) else c)"

definition lower :: "string \<Rightarrow> string" where
  "lower s = map lower_char s"

definition upper :: "string \<Rightarrow> string" where
  "upper s = map upper_char s"

text \<open>\<open>s.startswith(w)\<close> and the substring test \<open>w in s\<close>.\<close>

fun starts_with :: "string \<Rightarrow> string \<Rightarrow> bool" where
  "starts_with s [] = True"
| "starts_with [] (x # w) = False"
| "starts_with (c # s) (x # w) = (c = x \<and> starts_with s w)"

fun py_in :: "string \<Rightarrow> string \<Rightarrow> bool" where
  "py_in w [] = (w = [])"
| "py_in w (c # s) = (starts_with (c # s) w \<or> py_in w s)"

text \<open>\<open>any(word in s for word in words)\<close>.\<close>

definition any_in :: "string list \<Rightarrow> string \<Rightarrow> bool" where
  "any_in words s = list_ex (\<lambda>word. py_in word s) words"

text \<open>\<open>sep.join(parts)\<close>.\<close>

fun join :: "string \<Rightarrow> string list \<Rightarrow> string" where
  "join sep [] = []"
| "join sep [p] = p"
| "join sep (p # q # ps) = p @ sep @ join sep (q # ps)"

text \<open>\<open>s.strip()\<close>: white space is removed at both ends.\<close>

definition is_space :: "char \<Rightarrow> bool" where
  "is_space c =
     (let n = (of_char c :: nat) in (9 \<le> n \<and> n \<le> 13) \<or> (28 \<le> n \<and> n \<le> 32))"

definition strip :: "string \<Rightarrow> string" where
  "strip s = rev (dropWhile is_space (rev (dropWhile is_space s)))"

text \<open>A \<open>Document\<close> of the document index.\<close>

record document =
  page_content :: string
  metadata :: "(string \<times> string) list"

text \<open>
  Floats, and the values a \<open>Dict[str, Any]\<close> holds. A dictionary is an association
  list in insertion order with distinct keys.
\<close>

datatype pyfloat = Float rat | NaN

datatype pyval =
    VNone
  | VBool bool
  | VInt int
  | VFloat pyfloat
  | VStr string
  | VList "pyval list"
  | VDict "(string \<times> pyval) list"
  | VDoc document

type_synonym pydict = "(string \<times> pyval) list"

text \<open>\<open>d[k]\<close>, \<open>d.get(k)\<close>, \<open>k in d\<close> and \<open>d[k] = v\<close>.\<close>

definition getitem :: "pydict \<Rightarrow> string \<Rightarrow> exn + pyval" where
  "getitem d k = (case map_of d k of None \<Rightarrow> Inl (KeyError k) | Some v \<Rightarrow> Inr v)"

definition dict_get :: "pydict \<Rightarrow> string \<Rightarrow> pyval option" where
  "dict_get d k = map_of d k"

definition has_key :: "pydict \<Rightarrow> string \<Rightarrow> bool" where
  "has_key d k = (map_of d k \<noteq> None)"

definition setitem :: "pydict \<Rightarrow> string \<Rightarrow> pyval \<Rightarrow> pydict" where
  "setitem d k v = AList.update k v d"

text \<open>A value used where the code expects a dictionary or a list.\<close>

fun as_dict :: "pyval \<Rightarrow> exn + pydict" where
  "as_dict (VDict d) = Inr d"
| "as_dict _ = Inl (TypeError ''not a dict'')"

fun as_list :: "pyval \<Rightarrow> exn + pyval list" where
  "as_list (VList xs) = Inr xs"
| "as_list _ = Inl (TypeError ''not a list'')"

fun as_document :: "pyval \<Rightarrow> exn + document" where
  "as_document (VDoc d) = Inr d"
| "as_document _ = Inl (TypeError ''not a Document'')"

text \<open>Truth value of an object, as \<open>if x:\<close> tests it.\<close>

fun truthy :: "pyval \<Rightarrow> bool" where
  "truthy VNone = False"
| "truthy (VBool b) = b"
| "truthy (VInt i) = (i \<noteq> 0)"
| "truthy (VFloat f) = (f \<noteq> Float 0)"
| "truthy (VStr s) = (s \<noteq> [])"
| "truthy (VList xs) = (xs \<noteq> [])"
| "truthy (VDict d) = (d \<noteq> [])"
| "truthy (VDoc d) = True"

text \<open>Sequencing of computations that may raise.\<close>

definition bindE :: "exn + 'a \<Rightarrow> ('a \<Rightarrow> exn + 'b) \<Rightarrow> exn + 'b" where
  "bindE m f = (case m of Inl e \<Rightarrow> Inl e | Inr x \<Rightarrow> f x)"

fun mapE :: "('a \<Rightarrow> exn + 'b) \<Rightarrow> 'a list \<Rightarrow> exn + 'b list" where
  "mapE f [] = Inr []"
| "mapE f (x # xs) =
     bindE (f x) (\<lambda>y. bindE (mapE f xs) (\<lambda>ys. Inr (y # ys)))"

section \<open>Dates: \<open>datetime.strptime(s, '%Y-%m-%d')\<close>, ordinals, weekdays\<close>

text \<open>
  A \<open>datetime\<close> at midnight is represented by its proleptic Gregorian ordinal
  (\<open>date.toordinal\<close>: 1 is 0001-01-01, a Monday; the largest is 9999-12-31).
\<close>

definition is_leap :: "int \<Rightarrow> bool" where
  "is_leap y = (y mod 4 = 0 \<and> (y mod 100 \<noteq> 0 \<or> y mod 400 = 0))"

definition days_before_year :: "int \<Rightarrow> int" where
  "days_before_year year =
     (let y = year - 1 in y * 365 + y div 4 - y div 100 + y div 400)"

definition DAYS_IN_MONTH :: "int list" where
  "DAYS_IN_MONTH = [31, 28, 31, 30, 31, 30, 31, 31, 30, 31, 30, 31]"

definition days_in_month :: "int \<Rightarrow> int \<Rightarrow> int" where
  "days_in_month year month =
     (if month = 2 \<and> is_leap year then 29 else DAYS_IN_MONTH ! nat (month - 1))"

definition days_before_month :: "int \<Rightarrow> int \<Rightarrow> int" where
  "days_before_month year month =
     sum_list (take (nat (month - 1)) DAYS_IN_MONTH)
       + (if month > 2 \<and> is_leap year then 1 else 0)"

definition ymd2ord :: "int \<Rightarrow> int \<Rightarrow> int \<Rightarrow> int" where
  "ymd2ord year month day = days_before_year year + days_before_month year month + day"

definition MAXORDINAL :: int where
  "MAXORDINAL = 3652059"

text \<open>\<open>datetime.weekday()\<close>: Monday is 0, Sunday is 6.\<close>

definition weekday :: "int \<Rightarrow> int" where
  "weekday ordinal = (ordinal + 6) mod 7"

text \<open>
  The format \<open>%Y-%m-%d\<close> is compiled by \<open>_strptime\<close> to the regular expression
  \<open>(\d\d\d\d)-(1[0-2]|0[1-9]|[1-9])-(3[0-1]|[1-2]\d|0[1-9]|[1-9]| [1-9])\<close>, matched
  at the start of the string. Each matcher returns its alternatives in the order the
  regular expression tries them, as pairs of the number read and the rest of the string.
\<close>

fun match_Y :: "string \<Rightarrow> (int \<times> string) list" where
  "match_Y (a # b # c # d # rest) =
     (if is_digit a \<and> is_digit b \<and> is_digit c \<and> is_digit d
      then [(1000 * digit_val a + 100 * digit_val b + 10 * digit_val c + digit_val d, rest)]
      else [])"
| "match_Y _ = []"

fun match_lit :: "char \<Rightarrow> string \<Rightarrow> string list" where
  "match_lit c (x # rest) = (if x = c then [rest] else [])"
| "match_lit c [] = []"

fun two_digits :: "char set \<Rightarrow> char set \<Rightarrow> string \<Rightarrow> (int \<times> string) list" where
  "two_digits A B (a # b # rest) =
     (if a \<in> A \<and> b \<in> B then [(10 * digit_val a + digit_val b, rest)] else [])"
| "two_digits A B _ = []"

fun one_digit :: "char set \<Rightarrow> string \<Rightarrow> (int \<times> string) list" where
  "one_digit A (a # rest) = (if a \<in> A then [(digit_val a, rest)] else [])"
| "one_digit A [] = []"

fun space_digit :: "char set \<Rightarrow> string \<Rightarrow> (int \<times> string) list" where
  "space_digit A (s # a # rest) =
     (if s = CHR '' '' \<and> a \<in> A then [(digit_val a, rest)] else [])"
| "space_digit A _ = []"

definition match_m :: "string \<Rightarrow> (int \<times> string) list" where
  "match_m s =
     two_digits (set ''1'') (set ''012'') s
     @ two_digits (set ''0'') (set ''123456789'') s
     @ one_digit (set ''123456789'') s"

definition match_d :: "string \<Rightarrow> (int \<times> string) list" where
  "match_d s =
     two_digits (set ''3'') (set ''01'') s
     @ two_digits (set ''12'') (set ''0123456789'') s
     @ two_digits (set ''0'') (set ''123456789'') s
     @ one_digit (set ''123456789'') s
     @ space_digit (set ''123456789'') s"

text \<open>All matches of the whole expression, first match first.\<close>

definition match_ymd :: "string \<Rightarrow> ((int \<times> int \<times> int) \<times> string) list" where
  "match_ymd s =
     concat (map (\<lambda>(y, r1).
       concat (map (\<lambda>r2.
         concat (map (\<lambda>(m, r3).
           concat (map (\<lambda>r4.
             map (\<lambda>(d, r5). ((y, m, d), r5)) (match_d r4))
           (match_lit CHR ''-'' r3)))
         (match_m r2)))
       (match_lit CHR ''-'' r1)))
     (match_Y s))"

text \<open>
  \<open>datetime.strptime(s, '%Y-%m-%d')\<close>: no match, text left over after the match, a
  year outside 1..9999 or a day the month does not have all raise \<open>ValueError\<close>.
\<close>

definition strptime :: "string \<Rightarrow> exn + int" where
  "strptime s =
     (case match_ymd s of
        [] \<Rightarrow> Inl (ValueError ''time data does not match format'')
      | ((y, m, d), rest) # _ \<Rightarrow>
          if rest \<noteq> [] then Inl (ValueError ''unconverted data remains'')
          else if y < 1 \<or> 9999 < y then Inl (ValueError ''year is out of range'')
          else if d < 1 \<or> days_in_month y m < d
            then Inl (ValueError ''day is out of range for month'')
          else Inr (ymd2ord y m d))"

section \<open>The tabular data store (\<open>data_processor.py\<close>)\<close>

record employee =
  employee_id :: string
  name :: string
  department :: string
  hire_date :: string
  employment_status :: string

record leave_balance =
  lb_employee_id :: string
  pto_balance :: rat
  sick_balance :: rat
  personal_balance :: rat
  last_updated :: string

record timeoff_request =
  request_id :: string
  req_employee_id :: string
  request_type :: string
  start_date :: string
  end_date :: string
  days_requested :: rat
  status :: string
  submitted_date :: string
  approved_by :: "string option"
  comments :: string

record holiday =
  holiday_name :: string
  date :: string
  is_company_holiday :: bool

record dataset =
  employees :: "employee list"
  leave_balances :: "leave_balance list"
  timeoff_requests :: "timeoff_request list"
  holidays :: "holiday list"

subsection \<open>\<open>calculate_working_days\<close>\<close>

text \<open>
  \<open>set(pd.to_datetime(holidays['date']).dt.date)\<close>: the table stores its dates as
  ISO strings \<open>YYYY-MM-DD\<close>, which are read as \<open>strptime\<close> reads them; the first
  string that is not a date raises.
\<close>

fun to_datetime_dates :: "string list \<Rightarrow> exn + int list" where
  "to_datetime_dates [] = Inr []"
| "to_datetime_dates (s # ss) =
     (case strptime s of
        Inl e \<Rightarrow> Inl e
      | Inr d \<Rightarrow> (case to_datetime_dates ss of Inl e \<Rightarrow> Inl e | Inr ds \<Rightarrow> Inr (d # ds)))"

text \<open>
  The loop \<open>while current <= end\<close>. Adding \<open>timedelta(days=1)\<close> to 9999-12-31 raises
  \<open>OverflowError\<close>.
\<close>

function working_days_loop :: "int \<Rightarrow> int \<Rightarrow> int list \<Rightarrow> int \<Rightarrow> exn + int" where
  "working_days_loop current end_dt holiday_dates working_days =
     (if current \<le> end_dt then
        (if MAXORDINAL < current + 1 then Inl (OverflowError ''date value out of range'')
         else working_days_loop (current + 1) end_dt holiday_dates
                (if weekday current < 5 \<and> current \<notin> set holiday_dates
                 then working_days + 1 else working_days))
      else Inr working_days)"
  by pat_completeness auto
termination
  by (relation "measure (\<lambda>(current, end_dt, hs, w). nat (end_dt + 1 - current))") auto

declare working_days_loop.simps [simp del]

definition calculate_working_days :: "string \<Rightarrow> string \<Rightarrow> holiday list \<Rightarrow> exn + int" where
  "calculate_working_days start_date_str end_date_str holidays_df =
     (case strptime start_date_str of
        Inl e \<Rightarrow> Inl e
      | Inr start \<Rightarrow>
     (case strptime end_date_str of
        Inl e \<Rightarrow> Inl e
      | Inr end_dt \<Rightarrow>
     (case to_datetime_dates (map date holidays_df) of
        Inl e \<Rightarrow> Inl e
      | Inr holiday_dates \<Rightarrow> working_days_loop start end_dt holiday_dates 0)))"

subsection \<open>Rows as dictionaries (\<open>to_dict\<close>)\<close>

definition employee_to_dict :: "employee \<Rightarrow> pydict" where
  "employee_to_dict e =
     [(''employee_id'', VStr (employee_id e)),
      (''name'', VStr (name e)),
      (''department'', VStr (department e)),
      (''hire_date'', VStr (hire_date e)),
      (''employment_status'', VStr (employment_status e))]"

definition leave_balance_to_dict :: "leave_balance \<Rightarrow> pydict" where
  "leave_balance_to_dict b =
     [(''employee_id'', VStr (lb_employee_id b)),
      (''pto_balance'', VFloat (Float (pto_balance b))),
      (''sick_balance'', VFloat (Float (sick_balance b))),
      (''personal_balance'', VFloat (Float (personal_balance b))),
      (''last_updated'', VStr (last_updated b))]"

definition request_to_dict :: "timeoff_request \<Rightarrow> pydict" where
  "request_to_dict r =
     [(''request_id'', VStr (request_id r)),
      (''employee_id'', VStr (req_employee_id r)),
      (''request_type'', VStr (request_type r)),
      (''start_date'', VStr (start_date r)),
      (''end_date'', VStr (end_date r)),
      (''days_requested'', VFloat (Float (days_requested r))),
      (''status'', VStr (status r)),
      (''submitted_date'', VStr (submitted_date r)),
      (''approved_by'', (case approved_by r of None \<Rightarrow> VNone | Some a \<Rightarrow> VStr a)),
      (''comments'', VStr (comments r))]"

definition holiday_to_dict :: "holiday \<Rightarrow> pydict" where
  "holiday_to_dict h =
     [(''holiday_name'', VStr (holiday_name h)),
      (''date'', VStr (date h)),
      (''is_company_holiday'', VBool (is_company_holiday h))]"

text \<open>\<open>df.to_dict('records')\<close>: the rows in table order.\<close>

definition records_of :: "('a \<Rightarrow> pydict) \<Rightarrow> 'a list \<Rightarrow> pyval" where
  "records_of to_dict rows = VList (map (\<lambda>r. VDict (to_dict r)) rows)"

subsection \<open>\<open>create_sample_data\<close>\<close>

definition mk_employee :: "string \<Rightarrow> string \<Rightarrow> string \<Rightarrow> string \<Rightarrow> string \<Rightarrow> employee" where
  "mk_employee i n d h s =
     \<lparr>employee_id = i, name = n, department = d, hire_date = h, employment_status = s\<rparr>"

definition mk_balance :: "string \<Rightarrow> rat \<Rightarrow> rat \<Rightarrow> rat \<Rightarrow> string \<Rightarrow> leave_balance" where
  "mk_balance i p s q u =
     \<lparr>lb_employee_id = i, pto_balance = p, sick_balance = s, personal_balance = q,
      last_updated = u\<rparr>"

definition mk_request ::
  "string \<Rightarrow> string \<Rightarrow> string \<Rightarrow> string \<Rightarrow> string \<Rightarrow> rat \<Rightarrow> string \<Rightarrow> string
     \<Rightarrow> string option \<Rightarrow> string \<Rightarrow> timeoff_request" where
  "mk_request i e t s f n st sub ap c =
     \<lparr>request_id = i, req_employee_id = e, request_type = t, start_date = s, end_date = f,
      days_requested = n, status = st, submitted_date = sub, approved_by = ap, comments = c\<rparr>"

definition mk_holiday :: "string \<Rightarrow> string \<Rightarrow> bool \<Rightarrow> holiday" where
  "mk_holiday n d c = \<lparr>holiday_name = n, date = d, is_company_holiday = c\<rparr>"

definition sample_employees :: "employee list" where
  "sample_employees =
     [mk_employee ''EMP001'' ''John Smith'' ''Engineering'' ''2020-01-15'' ''Full-time'',
      mk_employee ''EMP002'' ''Jane Doe'' ''Marketing'' ''2019-03-20'' ''Full-time'',
      mk_employee ''EMP003'' ''Mike Johnson'' ''Sales'' ''2021-06-10'' ''Full-time'',
      mk_employee ''EMP004'' ''Sarah Wilson'' ''HR'' ''2018-11-05'' ''Full-time'',
      mk_employee ''EMP005'' ''David Brown'' ''Finance'' ''2022-02-28'' ''Full-time'']"

definition sample_leave_balances :: "leave_balance list" where
  "sample_leave_balances =
     [mk_balance ''EMP001'' (31 / 2) 8 3 ''2024-01-15'',
      mk_balance ''EMP002'' 22 10 5 ''2024-01-15'',
      mk_balance ''EMP003'' (35 / 4) (11 / 2) 2 ''2024-01-15'',
      mk_balance ''EMP004'' 30 7 4 ''2024-01-15'',
      mk_balance ''EMP005'' (49 / 4) (19 / 2) (3 / 2) ''2024-01-15'']"

definition sample_timeoff_requests :: "timeoff_request list" where
  "sample_timeoff_requests =
     [mk_request ''REQ001'' ''EMP001'' ''Vacation'' ''2024-02-15'' ''2024-02-20'' 4
        ''Approved'' ''2024-01-10'' (Some ''Manager1'') ''Family vacation'',
      mk_request ''REQ002'' ''EMP002'' ''Sick'' ''2024-01-20'' ''2024-01-20'' 1
        ''Approved'' ''2024-01-19'' (Some ''Manager2'') ''Not feeling well'',
      mk_request ''REQ003'' ''EMP003'' ''Personal'' ''2024-03-10'' ''2024-03-10'' 1
        ''Pending'' ''2024-02-15'' None ''Doctor appointment'',
      mk_request ''REQ004'' ''EMP004'' ''Vacation'' ''2024-04-01'' ''2024-04-05'' 3
        ''Approved'' ''2024-03-01'' (Some ''Manager1'') ''Spring break'',
      mk_request ''REQ005'' ''EMP005'' ''Holiday'' ''2024-01-01'' ''2024-01-01'' 1
        ''Approved'' ''2024-01-01'' (Some ''System'') ''New Year holiday'']"

definition sample_holidays :: "holiday list" where
  "sample_holidays =
     [mk_holiday (''New Year'' @ [CHR 0x27] @ ''s Day'') ''2024-01-01'' True,
      mk_holiday ''Martin Luther King Jr. Day'' ''2024-01-15'' True,
      mk_holiday ''Memorial Day'' ''2024-05-27'' True,
      mk_holiday ''Independence Day'' ''2024-07-04'' True,
      mk_holiday ''Labor Day'' ''2024-09-02'' True,
      mk_holiday ''Thanksgiving Day'' ''2024-11-28'' True,
      mk_holiday ''Christmas Day'' ''2024-12-25'' True]"

definition create_sample_data :: dataset where
  "create_sample_data =
     \<lparr>employees = sample_employees,
      leave_balances = sample_leave_balances,
      timeoff_requests = sample_timeoff_requests,
      holidays = sample_holidays\<rparr>"

subsection \<open>\<open>calculate_leave_statistics\<close>\<close>

text \<open>
  \<open>Series.mean()\<close> (NaN on an empty column) and \<open>Series.sum()\<close>. The source also
  merges the employee and balance tables into \<open>employee_stats\<close>, which it never reads.
\<close>

definition mean :: "rat list \<Rightarrow> pyfloat" where
  "mean xs = (if xs = [] then NaN else Float (sum_list xs / of_nat (length xs)))"

text \<open>
  \<open>Series.mode()\<close>: the values that occur most often, sorted; \<open>.iloc[0]\<close> takes the
  first and raises \<open>IndexError\<close> on an empty series.
\<close>

definition mode :: "string list \<Rightarrow> string list" where
  "mode xs =
     sort (filter (\<lambda>v. list_all (\<lambda>w. count_list xs w \<le> count_list xs v) xs) (remdups xs))"

fun iloc0 :: "'a list \<Rightarrow> exn + 'a" where
  "iloc0 [] = Inl (IndexError ''single positional indexer is out-of-bounds'')"
| "iloc0 (x # xs) = Inr x"

definition count_status :: "string \<Rightarrow> timeoff_request list \<Rightarrow> int" where
  "count_status st reqs = int (length (filter (\<lambda>r. status r = st) reqs))"

definition calculate_leave_statistics :: "dataset \<Rightarrow> exn + pydict" where
  "calculate_leave_statistics data =
     (let employees_df = employees data;
          leave_balances_df = leave_balances data;
          timeoff_requests_df = timeoff_requests data
      in bindE (if timeoff_requests_df \<noteq> []
                then bindE (iloc0 (mode (map request_type timeoff_requests_df)))
                       (\<lambda>m. Inr (VStr m))
                else Inr VNone)
         (\<lambda>most_requested.
            Inr [(''total_employees'', VInt (int (length employees_df))),
                 (''average_pto_balance'', VFloat (mean (map pto_balance leave_balances_df))),
                 (''total_pto_days'',
                    VFloat (Float (sum_list (map pto_balance leave_balances_df)))),
                 (''pending_requests'', VInt (count_status ''Pending'' timeoff_requests_df)),
                 (''approved_requests'', VInt (count_status ''Approved'' timeoff_requests_df)),
                 (''total_requests'', VInt (int (length timeoff_requests_df))),
                 (''most_requested_type'', most_requested)]))"

subsection \<open>\<open>get_employee_leave_summary\<close>\<close>

definition get_employee_leave_summary :: "string \<Rightarrow> dataset \<Rightarrow> pydict" where
  "get_employee_leave_summary emp_id data =
     (let employee = filter (\<lambda>e. employee_id e = emp_id) (employees data);
          leave_balance = filter (\<lambda>b. lb_employee_id b = emp_id) (leave_balances data);
          employee_requests =
            filter (\<lambda>r. req_employee_id r = emp_id) (timeoff_requests data)
      in case employee of
           [] \<Rightarrow> [(''error'', VStr ''Employee not found'')]
         | e # _ \<Rightarrow>
             [(''employee_info'', VDict (employee_to_dict e)),
              (''leave_balance'',
                 (case leave_balance of
                    [] \<Rightarrow> VDict []
                  | b # _ \<Rightarrow> VDict (leave_balance_to_dict b))),
              (''total_requests'', VInt (int (length employee_requests))),
              (''approved_requests'', VInt (count_status ''Approved'' employee_requests)),
              (''pending_requests'', VInt (count_status ''Pending'' employee_requests)),
              (''recent_requests'', records_of request_to_dict (take 5 employee_requests))])"

section \<open>The document index (\<open>vector_store.py\<close>)\<close>

text \<open>
  The Chroma index is an external library. Its method
  \<open>similarity_search_with_score(query, k)\<close> is a function that returns documents with
  their distances, or raises. The store object holds the index (\<open>None\<close> until it is
  created or loaded), the configured similarity threshold, and the entry
  \<open>config['retrieval']['top_k']\<close>, which a configuration may lack.
\<close>

type_synonym chroma = "string \<Rightarrow> int \<Rightarrow> exn + (document \<times> rat) list"

record workday_vector_store =
  vector_store :: "chroma option"
  similarity_threshold :: rat
  config_top_k :: "int option"

definition similarity_search ::
  "workday_vector_store \<Rightarrow> string \<Rightarrow> int option \<Rightarrow> exn + document list" where
  "similarity_search vs query k_arg =
     (case vector_store vs of
        None \<Rightarrow> Inr []
      | Some index \<Rightarrow>
          bindE (case k_arg of
                   None \<Rightarrow> (case config_top_k vs of
                               None \<Rightarrow> Inl (KeyError ''top_k'')
                             | Some n \<Rightarrow> Inr n)
                 | Some n \<Rightarrow> Inr n)
            (\<lambda>k. case index query k of
                    Inl e \<Rightarrow> Inr []
                  | Inr results \<Rightarrow>
                      Inr (map fst
                        (filter (\<lambda>(doc, score). score \<le> 1 - similarity_threshold vs)
                           results))))"

section \<open>The retriever (\<open>retriever.py\<close>)\<close>

record workday_retriever =
  retriever_vector_store :: workday_vector_store
  sample_data :: dataset

text \<open>
  \<open>re.search(r'emp\d+', s)\<close>: the leftmost place where \<open>emp\<close> is followed by a digit,
  with all the digits that follow.
\<close>

fun re_search_emp :: "string \<Rightarrow> string option" where
  "re_search_emp [] = None"
| "re_search_emp (c # s) =
     (if starts_with (c # s) ''emp'' \<and> takeWhile is_digit (drop 3 (c # s)) \<noteq> []
      then Some (''emp'' @ takeWhile is_digit (drop 3 (c # s)))
      else re_search_emp s)"

definition extract_relevant_data :: "workday_retriever \<Rightarrow> string \<Rightarrow> exn + pydict" where
  "extract_relevant_data self query =
     (let query_lower = lower query in
      bindE (if any_in [''employee'', ''balance'', ''pto'', ''leave''] query_lower
             then bindE (calculate_leave_statistics (sample_data self))
                    (\<lambda>stats. Inr (setitem [] ''leave_statistics'' (VDict stats)))
             else Inr [])
      (\<lambda>d1.
        let d2 = (if py_in ''emp'' query_lower \<or> py_in ''employee'' query_lower
                  then (case re_search_emp query_lower of
                          Some emp_match \<Rightarrow>
                            setitem d1 ''employee_summary''
                              (VDict (get_employee_leave_summary (upper emp_match)
                                        (sample_data self)))
                        | None \<Rightarrow> d1)
                  else d1);
            d3 = (if any_in [''holiday'', ''holidays'', ''christmas'', ''thanksgiving'']
                       query_lower
                  then setitem d2 ''holidays''
                         (records_of holiday_to_dict (holidays (sample_data self)))
                  else d2);
            d4 = (if any_in [''request'', ''approval'', ''pending'', ''approved''] query_lower
                  then setitem d3 ''recent_requests''
                         (records_of request_to_dict
                            (take 10 (timeoff_requests (sample_data self))))
                  else d3);
            d5 = (if any_in [''policy'', ''rules'', ''guidelines''] query_lower
                  then setitem d4 ''policy_summary''
                         (VDict
                           [(''total_employees'',
                               VInt (int (length (employees (sample_data self))))),
                            (''average_pto'',
                               VFloat (mean (map pto_balance
                                               (leave_balances (sample_data self))))),
                            (''total_requests'',
                               VInt (int (length (timeoff_requests (sample_data self)))))])
                  else d4)
        in Inr d5))"

text \<open>The body of the \<open>try\<close> block, and the function with its \<open>except Exception\<close>.\<close>

definition retrieve_body :: "workday_retriever \<Rightarrow> string \<Rightarrow> exn + pydict" where
  "retrieve_body self query =
     bindE (similarity_search (retriever_vector_store self) query None)
       (\<lambda>documents.
          bindE (extract_relevant_data self query)
            (\<lambda>data_results.
               Inr [(''documents'', VList (map VDoc documents)),
                    (''data'', VDict data_results),
                    (''query'', VStr query),
                    (''total_documents'', VInt (int (length documents))),
                    (''total_data_entries'', VInt (int (length data_results)))]))"

definition retrieve_relevant_documents :: "workday_retriever \<Rightarrow> string \<Rightarrow> pydict" where
  "retrieve_relevant_documents self query =
     (case retrieve_body self query of
        Inr results \<Rightarrow> results
      | Inl e \<Rightarrow> [(''error'', VStr (exn_str e))])"

subsection \<open>\<open>format_retrieved_information\<close> and \<open>get_context_for_query\<close>\<close>

text \<open>
  The built-in conversions of a value inside an f-string, \<open>str(v)\<close> and
  \<open>format(v, '.1f')\<close>, belong to the language and are parameters of the model.
  The symbols of the headings are written as their UTF-8 bytes.
\<close>

record builtins =
  py_str :: "pyval \<Rightarrow> string"
  py_format_1f :: "pyval \<Rightarrow> exn + string"

definition nl :: string where
  "nl = [CHR 0x0A]"

definition bullet :: string where
  "bullet = [CHR 0xE2, CHR 0x80, CHR 0xA2]"

definition document_excerpt :: "document \<Rightarrow> string" where
  "document_excerpt doc =
     (if length (page_content doc) > 200
      then take 200 (strip (page_content doc)) @ ''...''
      else strip (page_content doc))"

definition format_documents :: "builtins \<Rightarrow> pydict \<Rightarrow> exn + string list" where
  "format_documents bi results =
     (case dict_get results ''documents'' of
        None \<Rightarrow> Inr []
      | Some v \<Rightarrow>
          if truthy v then
            bindE (as_list v)
              (\<lambda>docs.
                 bindE (mapE (\<lambda>(i, doc).
                          bindE (as_document doc)
                            (\<lambda>d. Inr (py_str bi (VInt (int i)) @ ''. '' @ document_excerpt d)))
                        (enumerate 1 (take 3 docs)))
                   (\<lambda>lines.
                      Inr (([CHR 0xF0, CHR 0x9F, CHR 0x93, CHR 0x84]
                              @ '' Relevant Documentation:'') # lines)))
          else Inr [])"

definition format_leave_statistics :: "builtins \<Rightarrow> pydict \<Rightarrow> exn + string list" where
  "format_leave_statistics bi data =
     (if has_key data ''leave_statistics'' then
        bindE (bindE (getitem data ''leave_statistics'') as_dict)
          (\<lambda>stats.
        bindE (getitem stats ''total_employees'')
          (\<lambda>total.
        bindE (bindE (getitem stats ''average_pto'') (py_format_1f bi))
          (\<lambda>average.
        bindE (getitem stats ''pending_requests'')
          (\<lambda>pending.
        bindE (getitem stats ''approved_requests'')
          (\<lambda>approved.
             Inr [nl @ [CHR 0xF0, CHR 0x9F, CHR 0x93, CHR 0x8A] @ '' Leave Statistics:'',
                  bullet @ '' Total Employees: '' @ py_str bi total,
                  bullet @ '' Average PTO Balance: '' @ average @ '' days'',
                  bullet @ '' Pending Requests: '' @ py_str bi pending,
                  bullet @ '' Approved Requests: '' @ py_str bi approved])))))
      else Inr [])"

definition format_employee_summary :: "builtins \<Rightarrow> pydict \<Rightarrow> exn + string list" where
  "format_employee_summary bi data =
     (if has_key data ''employee_summary'' then
        bindE (bindE (getitem data ''employee_summary'') as_dict)
          (\<lambda>emp.
             if \<not> has_key emp ''error'' then
               bindE (bindE (getitem emp ''employee_info'') as_dict)
                 (\<lambda>info.
               bindE (getitem info ''name'')
                 (\<lambda>emp_name.
               bindE (getitem info ''department'')
                 (\<lambda>dept.
               bindE (getitem emp ''leave_balance'')
                 (\<lambda>balance.
                    let head = [nl @ [CHR 0xF0, CHR 0x9F, CHR 0x91, CHR 0xA4]
                                  @ '' Employee Summary:'',
                                bullet @ '' Name: '' @ py_str bi emp_name,
                                bullet @ '' Department: '' @ py_str bi dept]
                    in if truthy balance then
                         bindE (as_dict balance)
                           (\<lambda>lb.
                         bindE (getitem lb ''pto_balance'')
                           (\<lambda>pto.
                         bindE (getitem lb ''sick_balance'')
                           (\<lambda>sick.
                              Inr (head @
                                [bullet @ '' PTO Balance: '' @ py_str bi pto @ '' days'',
                                 bullet @ '' Sick Balance: '' @ py_str bi sick @ '' days'']))))
                       else Inr head))))
             else Inr [])
      else Inr [])"

definition format_holidays :: "builtins \<Rightarrow> pydict \<Rightarrow> exn + string list" where
  "format_holidays bi data =
     (if has_key data ''holidays'' then
        bindE (bindE (getitem data ''holidays'') as_list)
          (\<lambda>hs.
             bindE (mapE (\<lambda>h.
                      bindE (as_dict h)
                        (\<lambda>hd.
                      bindE (getitem hd ''holiday_name'')
                        (\<lambda>n.
                      bindE (getitem hd ''date'')
                        (\<lambda>d. Inr (bullet @ '' '' @ py_str bi n @ '': '' @ py_str bi d)))))
                    (take 5 hs))
               (\<lambda>lines.
                  Inr ((nl @ [CHR 0xF0, CHR 0x9F, CHR 0x8E, CHR 0x89] @ '' Company Holidays:'')
                       # lines)))
      else Inr [])"

definition format_recent_requests :: "builtins \<Rightarrow> pydict \<Rightarrow> exn + string list" where
  "format_recent_requests bi data =
     (if has_key data ''recent_requests'' then
        bindE (bindE (getitem data ''recent_requests'') as_list)
          (\<lambda>rs.
             bindE (mapE (\<lambda>r.
                      bindE (as_dict r)
                        (\<lambda>req.
                      bindE (getitem req ''request_type'')
                        (\<lambda>t.
                      bindE (getitem req ''start_date'')
                        (\<lambda>s.
                      bindE (getitem req ''end_date'')
                        (\<lambda>e.
                      bindE (getitem req ''status'')
                        (\<lambda>st.
                           Inr (bullet @ '' '' @ py_str bi t @ '': '' @ py_str bi s @ '' to ''
                                @ py_str bi e @ '' ('' @ py_str bi st @ '')'')))))))
                    (take 3 rs))
               (\<lambda>lines.
                  Inr ((nl @ [CHR 0xF0, CHR 0x9F, CHR 0x93, CHR 0x8B]
                          @ '' Recent Time-Off Requests:'') # lines)))
      else Inr [])"

definition format_retrieved_information :: "builtins \<Rightarrow> pydict \<Rightarrow> exn + string" where
  "format_retrieved_information bi results =
     (if has_key results ''error'' then
        bindE (getitem results ''error'')
          (\<lambda>e. Inr (''Error retrieving information: '' @ py_str bi e))
      else
        bindE (format_documents bi results)
          (\<lambda>l1.
        bindE (case dict_get results ''data'' of None \<Rightarrow> Inr [] | Some v \<Rightarrow> as_dict v)
          (\<lambda>data.
        bindE (format_leave_statistics bi data)
          (\<lambda>l2.
        bindE (format_employee_summary bi data)
          (\<lambda>l3.
        bindE (format_holidays bi data)
          (\<lambda>l4.
        bindE (format_recent_requests bi data)
          (\<lambda>l5.
             let formatted_info = l1 @ l2 @ l3 @ l4 @ l5
             in Inr (if formatted_info \<noteq> [] then join nl formatted_info
                     else ''No relevant information found.''))))))))"

definition get_context_for_query ::
  "builtins \<Rightarrow> workday_retriever \<Rightarrow> string \<Rightarrow> exn + string" where
  "get_context_for_query bi self query =
     format_retrieved_information bi (retrieve_relevant_documents self query)"

section \<open>Prompt selection and context rendering (\<open>prompts.py\<close>, \<open>timeoff_advisor.py\<close>)\<close>



text \<open>\<open>[doc.page_content for doc in docs[:n]]\<close>, joined by a blank line.\<close>

definition join_documents :: "nat \<Rightarrow> pydict \<Rightarrow> exn + string" where
  "join_documents n context_data =
     bindE (case dict_get context_data ''documents'' of
              None \<Rightarrow> Inr []
            | Some v \<Rightarrow> as_list v)
       (\<lambda>docs.
          bindE (mapE (\<lambda>doc. bindE (as_document doc) (\<lambda>d. Inr (page_content d)))
                   (take n docs))
            (\<lambda>contents. Inr (join (nl @ nl) contents)))"

definition get_or :: "pydict \<Rightarrow> string \<Rightarrow> pyval \<Rightarrow> pyval" where
  "get_or d k dflt = (case dict_get d k of None \<Rightarrow> dflt | Some v \<Rightarrow> v)"

definition format_employee_data :: "builtins \<Rightarrow> pydict \<Rightarrow> exn + string" where
  "format_employee_data bi emp =
     bindE (bindE (getitem emp ''employee_info'') as_dict)
       (\<lambda>info.
     bindE (getitem info ''name'')
       (\<lambda>emp_name.
     bindE (getitem info ''department'')
       (\<lambda>dept.
     bindE (bindE (getitem emp ''leave_balance'') as_dict)
       (\<lambda>lb.
     bindE (getitem emp ''total_requests'')
       (\<lambda>total.
     bindE (getitem emp ''pending_requests'')
       (\<lambda>pending.
          Inr (nl @ ''Employee: '' @ py_str bi emp_name @ nl
               @ ''Department: '' @ py_str bi dept @ nl
               @ ''PTO Balance: '' @ py_str bi (get_or lb ''pto_balance'' (VStr ''N/A''))
               @ '' days'' @ nl
               @ ''Sick Balance: '' @ py_str bi (get_or lb ''sick_balance'' (VStr ''N/A''))
               @ '' days'' @ nl
               @ ''Personal Balance: ''
               @ py_str bi (get_or lb ''personal_balance'' (VStr ''N/A'')) @ '' days'' @ nl
               @ ''Total Requests: '' @ py_str bi total @ nl
               @ ''Pending Requests: '' @ py_str bi pending @ nl)))))))"

definition format_data_summary :: "builtins \<Rightarrow> pydict \<Rightarrow> exn + string" where
  "format_data_summary bi stats =
     bindE (getitem stats ''total_employees'')
       (\<lambda>total.
     bindE (bindE (getitem stats ''average_pto'') (py_format_1f bi))
       (\<lambda>average.
     bindE (bindE (getitem stats ''total_pto_days'') (py_format_1f bi))
       (\<lambda>days.
     bindE (getitem stats ''pending_requests'')
       (\<lambda>pending.
     bindE (getitem stats ''approved_requests'')
       (\<lambda>approved.
          Inr (nl @ ''Total Employees: '' @ py_str bi total @ nl
               @ ''Average PTO Balance: '' @ average @ '' days'' @ nl
               @ ''Total PTO Days: '' @ days @ nl
               @ ''Pending Requests: '' @ py_str bi pending @ nl
               @ ''Approved Requests: '' @ py_str bi approved @ nl))))))"

definition format_context_for_prompt :: "builtins \<Rightarrow> string \<Rightarrow> pydict \<Rightarrow> exn + string" where
  "format_context_for_prompt bi prompt_type context_data =
     (if prompt_type = ''employee_data'' then
        (if has_key context_data ''employee_summary'' then
           bindE (bindE (getitem context_data ''employee_summary'') as_dict)
             (\<lambda>emp. if \<not> has_key emp ''error'' then format_employee_data bi emp
                     else Inr ''Employee data not available.'')
         else Inr ''Employee data not available.'')
      else if prompt_type = ''policy_docs'' then join_documents 3 context_data
      else if prompt_type = ''process_docs'' then join_documents 2 context_data
      else if prompt_type = ''holiday_data'' then
        (if has_key context_data ''holidays'' then
           bindE (bindE (getitem context_data ''holidays'') as_list)
             (\<lambda>hs.
                bindE (mapE (\<lambda>h.
                         bindE (as_dict h)
                           (\<lambda>hd.
                         bindE (getitem hd ''holiday_name'')
                           (\<lambda>n.
                         bindE (getitem hd ''date'')
                           (\<lambda>d. Inr (py_str bi n @ '': '' @ py_str bi d)))))
                       hs)
                  (\<lambda>lines. Inr (join nl lines)))
         else Inr ''Holiday data not available.'')
      else if prompt_type = ''data_summary'' then
        (if has_key context_data ''leave_statistics'' then
           bindE (bindE (getitem context_data ''leave_statistics'') as_dict)
             (format_data_summary bi)
         else Inr ''Data summary not available.'')
      else join_documents 3 context_data)"




section \<open>Observations and example states\<close>


text \<open>
  A retriever over the sample data whose document index has not been created, and the
  store of such a retriever.
\<close>

definition unindexed_store :: workday_vector_store where
  "unindexed_store =
     \<lparr>vector_store = None, similarity_threshold = 7 / 10, config_top_k = Some 5\<rparr>"

definition unindexed_retriever :: workday_retriever where
  "unindexed_retriever =
     \<lparr>retriever_vector_store = unindexed_store, sample_data = create_sample_data\<rparr>"

text \<open>
  A retriever whose store holds an (empty) index while the configuration has no entry
  \<open>retrieval.top_k\<close>.
\<close>

definition unconfigured_retriever :: workday_retriever where
  "unconfigured_retriever =
     \<lparr>retriever_vector_store =
        \<lparr>vector_store = Some (\<lambda>query k. Inr []), similarity_threshold = 7 / 10,
         config_top_k = None\<rparr>,
      sample_data = create_sample_data\<rparr>"

text \<open>
  An instance of the built-in conversions, used where a concrete one is needed: it
  shows a string as it is and writes a question mark for any other value.
\<close>

definition plain_builtins :: builtins where
  "plain_builtins =
     \<lparr>py_str = (\<lambda>v. case v of VStr s \<Rightarrow> s | _ \<Rightarrow> ''?''),
      py_format_1f = (\<lambda>v. case v of VFloat f \<Rightarrow> Inr ''?.?'' | VInt i \<Rightarrow> Inr ''?.0''
                               | _ \<Rightarrow> Inl (TypeError ''unsupported format string''))\<rparr>"











section \<open>Properties\<close>

subsection \<open>Auxiliary facts\<close>

lemma bindE_simps [simp]:
  "bindE (Inl e) f = Inl e"
  "bindE (Inr x) f = f x"
  by (simp_all add: bindE_def)





subsection \<open>Working days\<close>

text \<open>
  C1 (as stated): from 2024-01-01 to 2024-01-05 with a holiday table containing
  2024-01-01, \<open>calculate_working_days\<close> returns 3. It does not: the week has five
  weekdays, Monday to Friday, and the holiday removes one of them.
\<close>

theorem working_days_new_year_week_not_three:
  "calculate_working_days ''2024-01-01'' ''2024-01-05''
     [mk_holiday ''New Year'' ''2024-01-01'' True] \<noteq> Inr 3"
  by code_simp

text \<open>
  C1 (amended): from 2024-01-01 to 2024-01-05, with a holiday table whose only date in
  that week is 2024-01-01 (a one-row table, or the sample holiday table),
  \<open>calculate_working_days\<close> returns 4.
\<close>

theorem working_days_new_year_week:
  "calculate_working_days ''2024-01-01'' ''2024-01-05''
     [mk_holiday ''New Year'' ''2024-01-01'' True] = Inr 4
   \<and> calculate_working_days ''2024-01-01'' ''2024-01-05'' (holidays create_sample_data)
       = Inr 4"
  by code_simp




subsection \<open>Leave statistics\<close>

lemma ex_most_frequent:
  assumes "xs \<noteq> []"
  shows "\<exists>v \<in> set xs. \<forall>w \<in> set xs. count_list xs w \<le> count_list xs v"
proof -
  let ?S = "count_list xs ` set xs"
  have fin: "finite ?S" and ne: "?S \<noteq> {}" using assms by auto
  from Max_in [OF fin ne] obtain v where v: "v \<in> set xs" "count_list xs v = Max ?S"
    by auto
  have "\<forall>w \<in> set xs. count_list xs w \<le> count_list xs v"
    using v(2) Max_ge [OF fin] by auto
  with v(1) show ?thesis by blast
qed

lemma set_mode:
  "set (mode xs) = {v \<in> set xs. \<forall>w \<in> set xs. count_list xs w \<le> count_list xs v}"
  by (auto simp: mode_def list_all_iff)

lemma mode_nonempty: "xs \<noteq> [] \<Longrightarrow> mode xs \<noteq> []"
proof -
  assume "xs \<noteq> []"
  from ex_most_frequent [OF this] have "set (mode xs) \<noteq> {}"
    unfolding set_mode by blast
  then show ?thesis by auto
qed

lemma iloc0_mode:
  assumes "xs \<noteq> []"
  shows "\<exists>m. iloc0 (mode xs) = Inr m \<and> m \<in> set xs
           \<and> (\<forall>w. count_list xs w \<le> count_list xs m)"
proof -
  from mode_nonempty [OF assms] obtain m ms where ms: "mode xs = m # ms"
    by (cases "mode xs") auto
  then have "m \<in> set (mode xs)" by simp
  then have m: "m \<in> set xs" "\<forall>w \<in> set xs. count_list xs w \<le> count_list xs m"
    unfolding set_mode by auto
  have "count_list xs w \<le> count_list xs m" for w
  proof (cases "w \<in> set xs")
    case True
    with m(2) show ?thesis by blast
  next
    case False
    then have "count_list xs w = 0" by (simp add: count_list_0_iff)
    then show ?thesis by simp
  qed
  with ms m(1) show ?thesis by simp
qed

text \<open>
  The statistics never raise, and their keys are those of the source; in particular there
  is an entry \<open>average_pto_balance\<close> and none called \<open>average_pto\<close>.
\<close>

lemma calculate_leave_statistics_total:
  "\<exists>stats. calculate_leave_statistics data = Inr stats
      \<and> map_of stats ''total_employees'' = Some (VInt (int (length (employees data))))
      \<and> map_of stats ''average_pto'' = None
      \<and> map_of stats ''average_pto_balance''
          = Some (VFloat (mean (map pto_balance (leave_balances data))))"
proof (cases "timeoff_requests data = []")
  case True
  then show ?thesis by (simp add: calculate_leave_statistics_def Let_def)
next
  case False
  then have "map request_type (timeoff_requests data) \<noteq> []" by simp
  from iloc0_mode [OF this] obtain m
    where "iloc0 (mode (map request_type (timeoff_requests data))) = Inr m" by blast
  with False show ?thesis by (simp add: calculate_leave_statistics_def Let_def)
qed

lemma sample_statistics:
  "calculate_leave_statistics create_sample_data =
     Inr [(''total_employees'', VInt 5),
          (''average_pto_balance'', VFloat (Float (177 / 10))),
          (''total_pto_days'', VFloat (Float (177 / 2))),
          (''pending_requests'', VInt 1), (''approved_requests'', VInt 4),
          (''total_requests'', VInt 5),
          (''most_requested_type'', VStr ''Vacation'')]"
  by code_simp

text \<open>
  C7: on a dataset whose time-off-request table is empty, \<open>calculate_leave_statistics\<close>
  returns without raising and its \<open>most_requested_type\<close> is \<open>None\<close>; on a non-empty
  table it returns a request type of the table that no other value occurs more often
  than (a mode of \<open>request_type\<close> over all requests).
\<close>

theorem most_requested_type_mode:
  "(timeoff_requests data = [] \<longrightarrow>
      (\<exists>stats. calculate_leave_statistics data = Inr stats
         \<and> map_of stats ''most_requested_type'' = Some VNone))
   \<and> (timeoff_requests data \<noteq> [] \<longrightarrow>
      (\<exists>stats m. calculate_leave_statistics data = Inr stats
         \<and> map_of stats ''most_requested_type'' = Some (VStr m)
         \<and> m \<in> set (map request_type (timeoff_requests data))
         \<and> (\<forall>w. count_list (map request_type (timeoff_requests data)) w
                  \<le> count_list (map request_type (timeoff_requests data)) m)))"
proof (intro conjI impI)
  assume "timeoff_requests data = []"
  then show "\<exists>stats. calculate_leave_statistics data = Inr stats
         \<and> map_of stats ''most_requested_type'' = Some VNone"
    by (simp add: calculate_leave_statistics_def Let_def)
next
  assume ne: "timeoff_requests data \<noteq> []"
  let ?ts = "map request_type (timeoff_requests data)"
  from ne have "?ts \<noteq> []" by simp
  from iloc0_mode [OF this] obtain m where m: "iloc0 (mode ?ts) = Inr m" "m \<in> set ?ts"
    "\<forall>w. count_list ?ts w \<le> count_list ?ts m" by blast
  from ne m(1) have "\<exists>stats. calculate_leave_statistics data = Inr stats
         \<and> map_of stats ''most_requested_type'' = Some (VStr m)"
    by (simp add: calculate_leave_statistics_def Let_def)
  with m(2,3) show "\<exists>stats m. calculate_leave_statistics data = Inr stats
         \<and> map_of stats ''most_requested_type'' = Some (VStr m)
         \<and> m \<in> set ?ts \<and> (\<forall>w. count_list ?ts w \<le> count_list ?ts m)"
    by blast
qed

text \<open>
  The same on the sample data, with its request table emptied and as it is (where
  \<open>Vacation\<close> is requested twice and every other type once).
\<close>

theorem most_requested_type_mode_witness:
  "calculate_leave_statistics (create_sample_data\<lparr>timeoff_requests := []\<rparr>)
     = Inr [(''total_employees'', VInt 5),
            (''average_pto_balance'', VFloat (Float (177 / 10))),
            (''total_pto_days'', VFloat (Float (177 / 2))),
            (''pending_requests'', VInt 0), (''approved_requests'', VInt 0),
            (''total_requests'', VInt 0),
            (''most_requested_type'', VNone)]
   \<and> (\<exists>stats. calculate_leave_statistics create_sample_data = Inr stats
         \<and> map_of stats ''most_requested_type'' = Some (VStr ''Vacation''))"
proof -
  have a: "calculate_leave_statistics (create_sample_data\<lparr>timeoff_requests := []\<rparr>)
     = Inr [(''total_employees'', VInt 5),
            (''average_pto_balance'', VFloat (Float (177 / 10))),
            (''total_pto_days'', VFloat (Float (177 / 2))),
            (''pending_requests'', VInt 0), (''approved_requests'', VInt 0),
            (''total_requests'', VInt 0),
            (''most_requested_type'', VNone)]"
    by code_simp
  have ne: "timeoff_requests create_sample_data \<noteq> []" by code_simp
  have e: "timeoff_requests (create_sample_data\<lparr>timeoff_requests := []\<rparr>) = []" by simp
  note t1 = most_requested_type_mode [of "create_sample_data\<lparr>timeoff_requests := []\<rparr>"]
  note t2 = most_requested_type_mode [of create_sample_data]
  from t2 ne sample_statistics
  have "\<exists>stats. calculate_leave_statistics create_sample_data = Inr stats
         \<and> map_of stats ''most_requested_type'' = Some (VStr ''Vacation'')"
    by simp
  with a t1 e show ?thesis by simp
qed

subsection \<open>Query classification\<close>





subsection \<open>Holiday queries\<close>




subsection \<open>Retrieval and its errors\<close>

lemma extract_relevant_data_total: "\<exists>d. extract_relevant_data self query = Inr d"
proof -
  obtain stats where "calculate_leave_statistics (sample_data self) = Inr stats"
    using calculate_leave_statistics_total by blast
  then show ?thesis
    by (simp add: extract_relevant_data_def Let_def)
qed

lemma similarity_search_default_returns:
  assumes "\<not> (vector_store vs \<noteq> None \<and> config_top_k vs = None)"
  shows "\<exists>docs. similarity_search vs query None = Inr docs"
proof (cases "vector_store vs")
  case None
  then show ?thesis by (simp add: similarity_search_def)
next
  case (Some index)
  with assms obtain n where n: "config_top_k vs = Some n" by auto
  show ?thesis
    by (cases "index query n") (simp_all add: similarity_search_def Some n)
qed

text \<open>
  C3 (as stated): whenever an internal error occurs, \<open>retrieve_relevant_documents\<close>
  returns a result whose \<open>data\<close> is the mapping from \<open>error\<close> to the message and
  whose \<open>documents\<close> list is empty. It does not: the mapping it returns is itself
  the one from \<open>error\<close> to the message, with no \<open>data\<close> and no \<open>documents\<close>
  entry. Here the error is the \<open>KeyError\<close> of a configuration without
  \<open>retrieval.top_k\<close>.
\<close>

theorem retrieval_error_has_no_data_entry:
  "retrieve_relevant_documents unconfigured_retriever ''hello''
     = [(''error'', VStr ([CHR 0x27] @ ''top_k'' @ [CHR 0x27]))]
   \<and> dict_get (retrieve_relevant_documents unconfigured_retriever ''hello'') ''data'' = None
   \<and> dict_get (retrieve_relevant_documents unconfigured_retriever ''hello'') ''documents'' = None"
  by code_simp

text \<open>
  C3 (amended): for every query, \<open>retrieve_relevant_documents\<close> returns a mapping and
  raises nothing. Whenever an internal error occurs during retrieval, the mapping is
  exactly the one from \<open>error\<close> to the text of the exception; it has no \<open>data\<close> and
  no \<open>documents\<close> entry. This happens when the store is indexed and the configuration
  lacks \<open>retrieval.top_k\<close>; in every other state the result holds the documents, the
  data, the query and the two counts.
\<close>

theorem retrieval_error_shape:
  "(\<forall>e. retrieve_body self query = Inl e \<longrightarrow>
      retrieve_relevant_documents self query = [(''error'', VStr (exn_str e))]
      \<and> dict_get (retrieve_relevant_documents self query) ''data'' = None
      \<and> dict_get (retrieve_relevant_documents self query) ''documents'' = None)
   \<and> (vector_store (retriever_vector_store self) \<noteq> None
        \<and> config_top_k (retriever_vector_store self) = None
      \<longrightarrow> retrieve_body self query = Inl (KeyError ''top_k''))
   \<and> (\<not> (vector_store (retriever_vector_store self) \<noteq> None
           \<and> config_top_k (retriever_vector_store self) = None)
      \<longrightarrow> (\<exists>docs d. similarity_search (retriever_vector_store self) query None = Inr docs
              \<and> extract_relevant_data self query = Inr d
              \<and> retrieve_relevant_documents self query
                  = [(''documents'', VList (map VDoc docs)),
                     (''data'', VDict d),
                     (''query'', VStr query),
                     (''total_documents'', VInt (int (length docs))),
                     (''total_data_entries'', VInt (int (length d)))]))"
proof (intro conjI allI impI)
  fix e assume "retrieve_body self query = Inl e"
  then have r: "retrieve_relevant_documents self query = [(''error'', VStr (exn_str e))]"
    by (simp add: retrieve_relevant_documents_def)
  show "retrieve_relevant_documents self query = [(''error'', VStr (exn_str e))]"
    by (rule r)
  show "dict_get (retrieve_relevant_documents self query) ''data'' = None"
    by (simp add: r dict_get_def)
  show "dict_get (retrieve_relevant_documents self query) ''documents'' = None"
    by (simp add: r dict_get_def)
next
  assume "vector_store (retriever_vector_store self) \<noteq> None
        \<and> config_top_k (retriever_vector_store self) = None"
  then show "retrieve_body self query = Inl (KeyError ''top_k'')"
    by (auto simp: retrieve_body_def similarity_search_def)
next
  assume ok: "\<not> (vector_store (retriever_vector_store self) \<noteq> None
           \<and> config_top_k (retriever_vector_store self) = None)"
  obtain d where d: "extract_relevant_data self query = Inr d"
    using extract_relevant_data_total by blast
  from similarity_search_default_returns [OF ok] obtain docs
    where docs: "similarity_search (retriever_vector_store self) query None = Inr docs"
    by blast
  from d docs
  show "\<exists>docs d. similarity_search (retriever_vector_store self) query None = Inr docs
              \<and> extract_relevant_data self query = Inr d
              \<and> retrieve_relevant_documents self query
                  = [(''documents'', VList (map VDoc docs)),
                     (''data'', VDict d),
                     (''query'', VStr query),
                     (''total_documents'', VInt (int (length docs))),
                     (''total_data_entries'', VInt (int (length d)))]"
    by (simp add: retrieve_body_def retrieve_relevant_documents_def)
qed

text \<open>The retriever without \<open>retrieval.top_k\<close>, asked "hello".\<close>

theorem retrieval_error_shape_witness:
  "retrieve_relevant_documents unconfigured_retriever ''hello''
     = [(''error'', VStr (exn_str (KeyError ''top_k'')))]"
proof -
  have a: "vector_store (retriever_vector_store unconfigured_retriever) \<noteq> None
        \<and> config_top_k (retriever_vector_store unconfigured_retriever) = None"
    by (simp add: unconfigured_retriever_def)
  from retrieval_error_shape [of unconfigured_retriever "''hello''"] a show ?thesis by blast
qed

subsection \<open>Formatting the leave statistics\<close>

lemma map_of_setitem:
  "map_of (setitem d k v) k' = (if k' = k then Some v else map_of d k')"
  by (simp add: setitem_def update_conv')

lemma mapE_total:
  assumes "\<And>x. x \<in> set xs \<Longrightarrow> \<exists>y. f x = Inr y"
  shows "\<exists>ys. mapE f xs = Inr ys"
  using assms
proof (induction xs)
  case Nil
  then show ?case by simp
next
  case (Cons x xs)
  from Cons.prems obtain y where y: "f x = Inr y" by auto
  from Cons obtain ys where "mapE f xs = Inr ys" by auto
  with y show ?case by simp
qed

lemma snd_in_set_enumerate: "p \<in> set (enumerate n xs) \<Longrightarrow> snd p \<in> set xs"
proof -
  assume "p \<in> set (enumerate n xs)"
  then have "snd p \<in> set (map snd (enumerate n xs))" by (simp del: map_snd_enumerate)
  then show ?thesis by simp
qed

lemma format_documents_of_documents:
  assumes "dict_get results ''documents'' = Some (VList (map VDoc docs))"
  shows "\<exists>lines. format_documents bi results = Inr lines"
proof (cases "docs = []")
  case True
  with assms show ?thesis by (simp add: format_documents_def)
next
  case False
  have "\<exists>ys. mapE (\<lambda>(i, doc). bindE (as_document doc)
                 (\<lambda>d. Inr (py_str bi (VInt (int i)) @ ''. '' @ document_excerpt d)))
               (enumerate 1 (take 3 (map VDoc docs))) = Inr ys"
  proof (rule mapE_total)
    fix p assume "p \<in> set (enumerate 1 (take 3 (map VDoc docs)))"
    then have "snd p \<in> set (take 3 (map VDoc docs))" by (rule snd_in_set_enumerate)
    then have "snd p \<in> set (map VDoc docs)" by (rule in_set_takeD)
    then obtain d where "snd p = VDoc d" by auto
    then show "\<exists>y. (case p of (i, doc) \<Rightarrow> bindE (as_document doc)
                 (\<lambda>d. Inr (py_str bi (VInt (int i)) @ ''. '' @ document_excerpt d))) = Inr y"
      by (cases p) simp
  qed
  then obtain ys where "mapE (\<lambda>(i, doc). bindE (as_document doc)
                 (\<lambda>d. Inr (py_str bi (VInt (int i)) @ ''. '' @ document_excerpt d)))
               (enumerate 1 (take 3 (map VDoc docs))) = Inr ys" by blast
  with assms False show ?thesis by (simp add: format_documents_def)
qed

lemma extract_leave_statistics:
  assumes "any_in [''employee'', ''balance'', ''pto'', ''leave''] (lower query)"
  shows "\<exists>d stats. extract_relevant_data self query = Inr d
           \<and> calculate_leave_statistics (sample_data self) = Inr stats
           \<and> map_of d ''leave_statistics'' = Some (VDict stats)"
proof -
  obtain stats where "calculate_leave_statistics (sample_data self) = Inr stats"
    using calculate_leave_statistics_total by blast
  with assms show ?thesis
    by (simp add: extract_relevant_data_def Let_def map_of_setitem split: option.splits)
qed

lemma format_leave_statistics_key_error:
  assumes "map_of d ''leave_statistics'' = Some (VDict stats)"
      and "map_of stats ''total_employees'' = Some t"
      and "map_of stats ''average_pto'' = None"
  shows "format_leave_statistics bi d = Inl (KeyError ''average_pto'')"
  using assms by (simp add: format_leave_statistics_def has_key_def getitem_def)

lemma format_data_summary_key_error:
  assumes "map_of d ''leave_statistics'' = Some (VDict stats)"
      and "map_of stats ''total_employees'' = Some t"
      and "map_of stats ''average_pto'' = None"
  shows "format_context_for_prompt bi ''data_summary'' d = Inl (KeyError ''average_pto'')"
  using assms
  by (simp add: format_context_for_prompt_def format_data_summary_def has_key_def getitem_def)

text \<open>
  C10: every retrieval result whose data holds the \<open>leave_statistics\<close> entry, which is
  the case for any query containing employee, balance, pto or leave whose retrieval
  succeeded, makes \<open>format_retrieved_information\<close>, and so \<open>get_context_for_query\<close>,
  raise \<open>KeyError\<close>: the statistics have the key \<open>average_pto_balance\<close> and the
  formatter reads \<open>average_pto\<close>. The data-summary branch of
  \<open>format_context_for_prompt\<close> reads the same missing key.
\<close>

theorem average_pto_key_error:
  assumes kw: "any_in [''employee'', ''balance'', ''pto'', ''leave''] (lower query)"
      and ok: "\<not> (vector_store (retriever_vector_store self) \<noteq> None
                  \<and> config_top_k (retriever_vector_store self) = None)"
  shows "(\<exists>d stats. dict_get (retrieve_relevant_documents self query) ''data'' = Some (VDict d)
            \<and> map_of d ''leave_statistics'' = Some (VDict stats)
            \<and> calculate_leave_statistics (sample_data self) = Inr stats
            \<and> has_key stats ''average_pto_balance'' \<and> \<not> has_key stats ''average_pto''
            \<and> format_context_for_prompt bi ''data_summary'' d = Inl (KeyError ''average_pto''))
         \<and> format_retrieved_information bi (retrieve_relevant_documents self query)
             = Inl (KeyError ''average_pto'')
         \<and> get_context_for_query bi self query = Inl (KeyError ''average_pto'')"
proof -
  from extract_leave_statistics [OF kw] obtain d stats
    where d: "extract_relevant_data self query = Inr d"
      and st: "calculate_leave_statistics (sample_data self) = Inr stats"
      and ls: "map_of d ''leave_statistics'' = Some (VDict stats)" by blast
  from calculate_leave_statistics_total [of "sample_data self"] st
  have keys: "map_of stats ''total_employees'' = Some (VInt (int (length (employees (sample_data self)))))"
     "map_of stats ''average_pto'' = None"
     "map_of stats ''average_pto_balance'' \<noteq> None"
    by auto
  from similarity_search_default_returns [OF ok] obtain docs
    where docs: "similarity_search (retriever_vector_store self) query None = Inr docs"
    by blast
  let ?r = "retrieve_relevant_documents self query"
  from d docs have r: "?r = [(''documents'', VList (map VDoc docs)), (''data'', VDict d),
         (''query'', VStr query), (''total_documents'', VInt (int (length docs))),
         (''total_data_entries'', VInt (int (length d)))]"
    by (simp add: retrieve_relevant_documents_def retrieve_body_def)
  have rd: "dict_get ?r ''data'' = Some (VDict d)" by (simp add: r dict_get_def)
  have rdoc: "dict_get ?r ''documents'' = Some (VList (map VDoc docs))" by (simp add: r dict_get_def)
  have noerr: "\<not> has_key ?r ''error''" by (simp add: r has_key_def)
  from format_documents_of_documents [OF rdoc] obtain l1
    where l1: "format_documents bi ?r = Inr l1" by blast
  have fls: "format_leave_statistics bi d = Inl (KeyError ''average_pto'')"
    by (rule format_leave_statistics_key_error [OF ls keys(1,2)])
  have fds: "format_context_for_prompt bi ''data_summary'' d = Inl (KeyError ''average_pto'')"
    by (rule format_data_summary_key_error [OF ls keys(1,2)])
  have fri: "format_retrieved_information bi ?r = Inl (KeyError ''average_pto'')"
    using noerr l1 rd fls by (simp add: format_retrieved_information_def)
  then have gc: "get_context_for_query bi self query = Inl (KeyError ''average_pto'')"
    by (simp add: get_context_for_query_def)
  from rd ls st keys fds have "\<exists>d stats. dict_get ?r ''data'' = Some (VDict d)
            \<and> map_of d ''leave_statistics'' = Some (VDict stats)
            \<and> calculate_leave_statistics (sample_data self) = Inr stats
            \<and> has_key stats ''average_pto_balance'' \<and> \<not> has_key stats ''average_pto''
            \<and> format_context_for_prompt bi ''data_summary'' d = Inl (KeyError ''average_pto'')"
    by (auto simp: has_key_def)
  with fri gc show ?thesis by blast
qed

text \<open>The question "How much PTO do I have?" over the sample data.\<close>

theorem average_pto_key_error_witness:
  "get_context_for_query plain_builtins unindexed_retriever ''How much PTO do I have?''
     = Inl (KeyError ''average_pto'')"
proof -
  have a: "any_in [''employee'', ''balance'', ''pto'', ''leave''] (lower ''How much PTO do I have?'')"
    by code_simp
  have b: "\<not> (vector_store (retriever_vector_store unindexed_retriever) \<noteq> None
                  \<and> config_top_k (retriever_vector_store unindexed_retriever) = None)"
    by (simp add: unindexed_retriever_def unindexed_store_def)
  from average_pto_key_error [OF a b] show ?thesis by blast
qed

subsection \<open>Similarity search\<close>



subsection \<open>Rendering the context of a prompt\<close>








subsection \<open>Employee summaries\<close>







end
